theory Spec2Isabelle
  imports Main "HOL-Library.AList"
begin

section \<open>Python values and built-ins used by axis.py\<close>

text \<open>
  Python strings are modelled by HOL strings, one \<^typ>\<open>char\<close> per code point. A
  \<^typ>\<open>char\<close> has eight bits, so the model covers the code points U+0000 to U+00FF;
  this is the range that the octal escapes of a quoted cookie value can produce. Strings
  are otherwise only compared and concatenated by the program.
\<close>

datatype exn =
  KeyError | IndexError | TypeError | ValueError | OverflowError | DuplicateKeyError
  | DecodeError

text \<open>
  The result of \<open>resp.json()\<close> and the values of a stored document. \<open>JObj kvs\<close> stands
  for the Python dict \<open>map_of kvs\<close>. Numbers are integers.
\<close>

datatype json =
  JNull | JBool bool | JInt int | JStr string | JArr "json list"
  | JObj "(string \<times> json) list"

text \<open>\<open>obj[key]\<close> with a string key: only a dict can be subscripted this way.\<close>

fun getitem :: "json \<Rightarrow> string \<Rightarrow> exn + json" where
  "getitem (JObj kvs) k = (case map_of kvs k of None \<Rightarrow> Inl KeyError | Some v \<Rightarrow> Inr v)"
| "getitem _ k = Inl TypeError"

text \<open>\<open>d[k][0]\<close> on a dict of lists (\<open>request.args\<close>, the result of \<open>parse_qs\<close>).\<close>

definition subscript0 :: "(string \<rightharpoonup> string list) \<Rightarrow> string \<Rightarrow> exn + string" where
  "subscript0 d k =
     (case d k of
        None \<Rightarrow> Inl KeyError
      | Some [] \<Rightarrow> Inl IndexError
      | Some (v # _) \<Rightarrow> Inr v)"

subsection \<open>\<open>str.isnumeric\<close> and \<open>int\<close>\<close>

text \<open>
  The characters below U+0100 whose Unicode Numeric_Type is Decimal, Digit or Numeric:
  the ASCII digits, the superscripts two, three and one, and the three vulgar fractions.
\<close>

definition numeric_chars :: "char list" where
  "numeric_chars =
     ''0123456789'' @ [CHR 0xB2, CHR 0xB3, CHR 0xB9, CHR 0xBC, CHR 0xBD, CHR 0xBE]"

definition isnumeric :: "string \<Rightarrow> bool" where
  "isnumeric s = (s \<noteq> [] \<and> list_all (\<lambda>c. c \<in> set numeric_chars) s)"

definition is_digit :: "char \<Rightarrow> bool" where
  "is_digit c = (c \<in> set ''0123456789'')"

definition digit_val :: "char \<Rightarrow> int" where
  "digit_val c = int (of_char c) - 48"

definition is_space :: "char \<Rightarrow> bool" where
  "is_space c = (c \<in> set [CHR '' '', CHR 0x09, CHR 0x0A, CHR 0x0B, CHR 0x0C, CHR 0x0D])"

text \<open>
  \<open>int(s)\<close> first maps the string to ASCII: a non-ASCII space becomes a blank, a
  non-ASCII decimal digit its ASCII digit (there is none below U+0100), anything else a
  question mark.
\<close>

definition to_ascii :: "char \<Rightarrow> char" where
  "to_ascii c =
     (if (of_char c :: nat) < 127 then c
      else if c = CHR 0x85 \<or> c = CHR 0xA0 then CHR '' ''
      else CHR ''?'')"

fun no_double_underscore :: "string \<Rightarrow> bool" where
  "no_double_underscore (a # b # cs) =
     (\<not> (a = CHR ''_'' \<and> b = CHR ''_'') \<and> no_double_underscore (b # cs))"
| "no_double_underscore _ = True"

definition digits_value :: "string \<Rightarrow> int" where
  "digits_value ds = foldl (\<lambda>a c. 10 * a + digit_val c) 0 ds"

text \<open>
  Base-10 \<open>int(s)\<close>: blanks, an optional sign, digits with single underscores between
  them, blanks, end of string. Anything else is a ValueError, and so is a literal of
  more than 4300 digits (the default of \<open>sys.get_int_max_str_digits()\<close>).
\<close>

definition max_str_digits :: nat where
  "max_str_digits = 4300"

definition py_int :: "string \<Rightarrow> exn + int" where
  "py_int s =
     (let t = dropWhile is_space (map to_ascii s);
          neg = (t \<noteq> [] \<and> hd t = CHR ''-'');
          u = (if t \<noteq> [] \<and> (hd t = CHR ''+'' \<or> hd t = CHR ''-'') then tl t else t);
          lit = takeWhile (\<lambda>c. is_digit c \<or> c = CHR ''_'') u;
          rest = dropWhile (\<lambda>c. is_digit c \<or> c = CHR ''_'') u
      in if lit \<noteq> [] \<and> hd lit \<noteq> CHR ''_'' \<and> last lit \<noteq> CHR ''_''
            \<and> no_double_underscore lit \<and> list_all is_space rest
            \<and> length (filter is_digit lit) \<le> max_str_digits
         then Inr ((if neg then - 1 else 1) * digits_value (filter is_digit lit))
         else Inl ValueError)"

subsection \<open>\<open>urllib.parse.parse_qs\<close>\<close>

text \<open>\<open>s.split(sep)\<close> for a one-character separator.\<close>

fun split_on :: "char \<Rightarrow> string \<Rightarrow> string list" where
  "split_on sep [] = [[]]"
| "split_on sep (c # cs) =
     (if c = sep then [] # split_on sep cs
      else (case split_on sep cs of
              [] \<Rightarrow> [[c]]
            | w # ws \<Rightarrow> (c # w) # ws))"

text \<open>\<open>s.split('=', 1)\<close>: \<open>None\<close> when there is no equals sign.\<close>

fun split_eq :: "string \<Rightarrow> (string \<times> string) option" where
  "split_eq [] = None"
| "split_eq (c # cs) =
     (if c = CHR ''='' then Some ([], cs)
      else (case split_eq cs of
              None \<Rightarrow> None
            | Some (k, v) \<Rightarrow> Some (c # k, v)))"

definition plus_to_space :: "string \<Rightarrow> string" where
  "plus_to_space s = map (\<lambda>c. if c = CHR ''+'' then CHR '' '' else c) s"

text \<open>
  \<open>unquote\<close> returns a string without a percent sign as it is; the decoding of percent
  escapes proper (UTF-8 with replacement) is the parameter \<open>dec\<close>.
\<close>

definition unquote :: "(string \<Rightarrow> string) \<Rightarrow> string \<Rightarrow> string" where
  "unquote dec s = (if CHR ''%'' \<notin> set s then s else dec s)"

text \<open>
  One field of the query string, with \<open>keep_blank_values=False\<close>: a field without an
  equals sign or with an empty value is dropped. Fields are separated by \<open>&\<close>.
\<close>

definition parse_field :: "(string \<Rightarrow> string) \<Rightarrow> string \<Rightarrow> (string \<times> string) list" where
  "parse_field dec name_value =
     (if name_value = [] then []
      else (case split_eq name_value of
              None \<Rightarrow> []
            | Some (k, v) \<Rightarrow>
                if v = [] then []
                else [(unquote dec (plus_to_space k), unquote dec (plus_to_space v))]))"

definition parse_qsl :: "(string \<Rightarrow> string) \<Rightarrow> string \<Rightarrow> (string \<times> string) list" where
  "parse_qsl dec qs = concat (map (parse_field dec) (split_on (CHR ''&'') qs))"

fun collect :: "(string \<times> string) list \<Rightarrow> (string \<rightharpoonup> string list) \<Rightarrow> (string \<rightharpoonup> string list)" where
  "collect [] d = d"
| "collect ((name, v) # ps) d =
     collect ps (d(name \<mapsto> (case d name of None \<Rightarrow> [v] | Some vs \<Rightarrow> vs @ [v])))"

definition parse_qs :: "(string \<Rightarrow> string) \<Rightarrow> string \<Rightarrow> (string \<rightharpoonup> string list)" where
  "parse_qs dec qs = collect (parse_qsl dec qs) Map.empty"

section \<open>The collaborators of the handlers\<close>

subsection \<open>Environment, request and response\<close>

type_synonym environ = "string \<rightharpoonup> string"

definition env_get :: "environ \<Rightarrow> string \<Rightarrow> exn + string" where
  "env_get env k = (case env k of None \<Rightarrow> Inl KeyError | Some v \<Rightarrow> Inr v)"

record request =
  url :: string
  args :: "string \<rightharpoonup> string list"
  cookies :: "string \<rightharpoonup> string"

text \<open>
  A sanic response. \<open>location\<close> is the target handed to \<open>sanic.response.redirect\<close>
  (sanic quotes it into the Location header); \<open>resp_cookies\<close> are the cookies set on it.
\<close>

record response =
  status :: int
  body :: string
  location :: "string option"
  resp_cookies :: "(string \<times> string) list"

definition response_text :: "string \<Rightarrow> int \<Rightarrow> response" where
  "response_text b st = \<lparr>status = st, body = b, location = None, resp_cookies = []\<rparr>"

definition response_redirect :: "string \<Rightarrow> int \<Rightarrow> response" where
  "response_redirect to st = \<lparr>status = st, body = [], location = Some to, resp_cookies = []\<rparr>"

text \<open>
  What the program calls and this repository's sources do not define here:
  \<open>tools.parse_url\<close>, the percent decoding inside \<open>unquote\<close>, and \<open>str()\<close> of a JSON
  value that is not a string.
\<close>

record runtime =
  parse_url :: "string \<Rightarrow> string"
  percent_decode :: "string \<Rightarrow> string"
  str_of :: "json \<Rightarrow> string"

text \<open>\<open>"{0}".format(v)\<close>: a string is inserted as it is.\<close>

definition format0 :: "runtime \<Rightarrow> json \<Rightarrow> string" where
  "format0 rt v = (case v of JStr s \<Rightarrow> s | _ \<Rightarrow> str_of rt v)"

subsection \<open>The identity provider\<close>

text \<open>
  The provider answers the two GET requests: the token endpoint maps the requested URL
  to the text of the response, the profile endpoint maps the request headers to a status
  and to what \<open>resp.json()\<close> gives (a value, or the exception it raises).
\<close>

record profile_response =
  p_status :: int
  p_json :: "exn + json"

record provider =
  token_endpoint :: "string \<Rightarrow> string"
  user_endpoint :: "(string \<times> string) list \<Rightarrow> profile_response"

subsection \<open>The document store\<close>

text \<open>
  The \<open>users\<close> collection is a list of documents in insertion order, a document a list of
  fields read through \<open>map_of\<close>. \<open>oplog\<close> records the calls that reached the store, so
  that a run without any read or write leaves the whole state as it was.
\<close>

type_synonym document = "(string \<times> json) list"

datatype db_call = FindOne int | UpdateOne int json | InsertOne document

record store =
  docs :: "document list"
  oplog :: "db_call list"

definition int64 :: "int \<Rightarrow> bool" where
  "int64 n = (- (2 ^ 63) \<le> n \<and> n < 2 ^ 63)"

text \<open>BSON has no integer beyond eight bytes: the driver raises OverflowError.\<close>

fun bson_ok :: "json \<Rightarrow> bool"
  and bson_ok_list :: "json list \<Rightarrow> bool"
  and bson_ok_fields :: "(string \<times> json) list \<Rightarrow> bool" where
  "bson_ok (JInt n) = int64 n"
| "bson_ok (JArr xs) = bson_ok_list xs"
| "bson_ok (JObj kvs) = bson_ok_fields kvs"
| "bson_ok JNull = True"
| "bson_ok (JBool b) = True"
| "bson_ok (JStr s) = True"
| "bson_ok_list [] = True"
| "bson_ok_list (x # xs) = (bson_ok x \<and> bson_ok_list xs)"
| "bson_ok_fields [] = True"
| "bson_ok_fields ((k, v) # kvs) = (bson_ok v \<and> bson_ok_fields kvs)"

definition matches_id :: "int \<Rightarrow> document \<Rightarrow> bool" where
  "matches_id n d = (map_of d ''_id'' = Some (JInt n))"

text \<open>\<open>COLLECTION.find_one({"_id": n})\<close>: the first matching document, or \<open>None\<close>.\<close>

definition find_one :: "int \<Rightarrow> store \<Rightarrow> (exn + document option) \<times> store" where
  "find_one n s =
     (if \<not> int64 n then (Inl OverflowError, s)
      else (Inr (find (matches_id n) (docs s)), s\<lparr>oplog := oplog s @ [FindOne n]\<rparr>))"

fun update_first :: "('a \<Rightarrow> bool) \<Rightarrow> ('a \<Rightarrow> 'a) \<Rightarrow> 'a list \<Rightarrow> 'a list" where
  "update_first P f [] = []"
| "update_first P f (d # ds) = (if P d then f d # ds else d # update_first P f ds)"

text \<open>
  \<open>COLLECTION.update_one({"_id": n}, {"$set": {"github": v}})\<close>: the field is replaced
  in the first matching document, or added to it.
\<close>

definition update_one :: "int \<Rightarrow> json \<Rightarrow> store \<Rightarrow> (exn + unit) \<times> store" where
  "update_one n v s =
     (if \<not> int64 n \<or> \<not> bson_ok v then (Inl OverflowError, s)
      else (Inr (),
            s\<lparr>docs := update_first (matches_id n) (AList.update ''github'' v) (docs s),
              oplog := oplog s @ [UpdateOne n v]\<rparr>))"

text \<open>
  \<open>COLLECTION.insert_one({"_id": n, "github": v})\<close>: the store refuses a second document
  with the same \<open>_id\<close>.
\<close>

definition insert_one :: "int \<Rightarrow> json \<Rightarrow> store \<Rightarrow> (exn + unit) \<times> store" where
  "insert_one n v s =
     (if \<not> int64 n \<or> \<not> bson_ok v then (Inl OverflowError, s)
      else if list_ex (matches_id n) (docs s)
      then (Inl DuplicateKeyError,
            s\<lparr>oplog := oplog s @ [InsertOne [(''_id'', JInt n), (''github'', v)]]\<rparr>)
      else (Inr (),
            s\<lparr>docs := docs s @ [[(''_id'', JInt n), (''github'', v)]],
              oplog := oplog s @ [InsertOne [(''_id'', JInt n), (''github'', v)]]\<rparr>))"

text \<open>Truth value of the result of \<open>find_one\<close>: \<open>None\<close> and the empty dict are false.\<close>

definition truthy :: "document option \<Rightarrow> bool" where
  "truthy found = (case found of None \<Rightarrow> False | Some d \<Rightarrow> d \<noteq> [])"

section \<open>The endpoints\<close>

definition AUTH_GITHUB :: "string \<Rightarrow> string \<Rightarrow> string" where
  "AUTH_GITHUB a b =
     ''https://github.com/login/oauth/authorize?client_id='' @ a @ ''&redirect_uri='' @ b"

definition CODE_GITHUB :: "string \<Rightarrow> string \<Rightarrow> string \<Rightarrow> string" where
  "CODE_GITHUB a b c =
     ''https://github.com/login/oauth/access_token?client_id='' @ a
       @ ''&client_secret='' @ b @ ''&code='' @ c"

definition unconfigured :: "environ \<Rightarrow> bool" where
  "unconfigured env = (env ''GITHUB_CLIENT'' = None \<or> env ''GITHUB_SECRET'' = None)"

text \<open>The headers of the profile request (lines 112 to 115).\<close>

definition profile_headers :: "string \<Rightarrow> (string \<times> string) list" where
  "profile_headers token =
     [(''Authorization'', ''token '' @ token),
      (''User-Agent'', ''Chomusuke (+https://github.com/ChomusukeBot)'')]"

definition home :: "request \<Rightarrow> response" where
  "home req = response_redirect ''https://github.com/ChomusukeBot'' 302"

definition github :: "runtime \<Rightarrow> environ \<Rightarrow> request \<Rightarrow> exn + response" where
  "github rt env req =
     (if unconfigured env
      then Inr (response_text ''GitHub is not supported at this time.'' 503)
      else if args req ''id'' = None
      then Inr (response_text ''The Discord ID was not specified'' 400)
      else
        let callback = parse_url rt (url req) @ ''/github/callback'' in
        (case env_get env ''GITHUB_CLIENT'' of
           Inl e \<Rightarrow> Inl e
         | Inr client \<Rightarrow>
             let response = response_redirect (AUTH_GITHUB client callback) 301 in
             (case subscript0 (args req) ''id'' of
                Inl e \<Rightarrow> Inl e
              | Inr v \<Rightarrow> Inr (response\<lparr>resp_cookies := [(''id'', v)]\<rparr>))))"

text \<open>Lines 95 to 104 of \<open>github_callback\<close>: the token request and its decoded body.\<close>

definition request_token ::
  "runtime \<Rightarrow> environ \<Rightarrow> request \<Rightarrow> provider \<Rightarrow> exn + (string \<rightharpoonup> string list)" where
  "request_token rt env req prov =
     (case env_get env ''GITHUB_CLIENT'' of
        Inl e \<Rightarrow> Inl e
      | Inr client \<Rightarrow>
          (case env_get env ''GITHUB_SECRET'' of
             Inl e \<Rightarrow> Inl e
           | Inr secret \<Rightarrow>
               (case subscript0 (args req) ''code'' of
                  Inl e \<Rightarrow> Inl e
                | Inr code \<Rightarrow>
                    Inr (parse_qs (percent_decode rt)
                           (token_endpoint prov (CODE_GITHUB client secret code))))))"

text \<open>Lines 126 to 142: the identifier as a number, the upsert and the answer.\<close>

definition link_account ::
  "runtime \<Rightarrow> string \<Rightarrow> json \<Rightarrow> store \<Rightarrow> (exn + response) \<times> store" where
  "link_account rt cid js s =
     (case py_int cid of
        Inl e \<Rightarrow> (Inl e, s)
      | Inr n \<Rightarrow>
          (case find_one n s of
             (Inl e, s1) \<Rightarrow> (Inl e, s1)
           | (Inr found, s1) \<Rightarrow>
               (case getitem js ''login'' of
                  Inl e \<Rightarrow> (Inl e, s1)
                | Inr login \<Rightarrow>
                    (case (if truthy found then update_one n login s1
                           else insert_one n login s1) of
                       (Inl e, s2) \<Rightarrow> (Inl e, s2)
                     | (Inr u, s2) \<Rightarrow>
                         (Inr (response_text
                                 (''Done! The GitHub account '' @ format0 rt login
                                    @ '' is now linked with Discord.'') 200),
                          s2)))))"

definition github_callback ::
  "runtime \<Rightarrow> environ \<Rightarrow> request \<Rightarrow> provider \<Rightarrow> store \<Rightarrow> (exn + response) \<times> store" where
  "github_callback rt env req prov s =
     (if unconfigured env
      then (Inr (response_text ''GitHub is not supported at this time.'' 503), s)
      else
        (case cookies req ''id'' of
           None \<Rightarrow> (Inr (response_text ''No Discord ID present on cookies.'' 400), s)
         | Some cid \<Rightarrow>
             if \<not> isnumeric cid
             then (Inr (response_text ''The Discord ID is not numeric.'' 400), s)
             else if args req ''code'' = None
             then (Inr (response_text ''There is no GitHub code.'' 400), s)
             else
               (case request_token rt env req prov of
                  Inl e \<Rightarrow> (Inl e, s)
                | Inr params \<Rightarrow>
                    if params ''error'' \<noteq> None
                    then (case subscript0 params ''error_description'' of
                            Inl e \<Rightarrow> (Inl e, s)
                          | Inr msg \<Rightarrow> (Inr (response_text msg 400), s))
                    else
                      (case subscript0 params ''access_token'' of
                         Inl e \<Rightarrow> (Inl e, s)
                       | Inr token \<Rightarrow>
                           let headers = profile_headers token;
                               resp = user_endpoint prov headers
                           in if p_status resp \<noteq> 200
                              then (Inr (response_text
                                           ''An error has ocurred while fetching your data.''
                                           (p_status resp)), s)
                              else (case p_json resp of
                                      Inl e \<Rightarrow> (Inl e, s)
                                    | Inr js \<Rightarrow> link_account rt cid js s)))))"

text \<open>The routes registered on the application, and a run of requests one after another.\<close>

datatype route = Root | Github | GithubCallback

definition handle ::
  "runtime \<Rightarrow> environ \<Rightarrow> route \<Rightarrow> request \<Rightarrow> provider \<Rightarrow> store \<Rightarrow> (exn + response) \<times> store" where
  "handle rt env r req prov s =
     (case r of
        Root \<Rightarrow> (Inr (home req), s)
      | Github \<Rightarrow> (github rt env req, s)
      | GithubCallback \<Rightarrow> github_callback rt env req prov s)"

fun serve ::
  "runtime \<Rightarrow> environ \<Rightarrow> (route \<times> request \<times> provider) list \<Rightarrow> store \<Rightarrow> store" where
  "serve rt env [] s = s"
| "serve rt env ((r, req, prov) # rest) s = serve rt env rest (snd (handle rt env r req prov s))"

text \<open>The Link Records kept for a platform user ID.\<close>

definition records_for :: "int \<Rightarrow> document list \<Rightarrow> document list" where
  "records_for n ds = filter (matches_id n) ds"

subsection \<open>Sample data\<close>

definition sample_runtime :: runtime where
  "sample_runtime =
     \<lparr>parse_url = (\<lambda>u. ''http://localhost:42013''),
      percent_decode = (\<lambda>s. s),
      str_of = (\<lambda>v. ''?'')\<rparr>"

definition sample_env :: environ where
  "sample_env = [''GITHUB_CLIENT'' \<mapsto> ''client'', ''GITHUB_SECRET'' \<mapsto> ''secret'']"

definition no_credentials :: environ where
  "no_credentials = Map.empty"

definition callback_request :: "string \<Rightarrow> request" where
  "callback_request cid =
     \<lparr>url = ''http://localhost:42013/github/callback?code=c0de'',
      args = [''code'' \<mapsto> [''c0de'']],
      cookies = [''id'' \<mapsto> cid]\<rparr>"

definition bare_request :: request where
  "bare_request = \<lparr>url = ''http://localhost:42013/github'', args = Map.empty, cookies = Map.empty\<rparr>"

definition initiate_request :: "string \<Rightarrow> request" where
  "initiate_request uid =
     \<lparr>url = ''http://localhost:42013/github?id='' @ uid,
      args = [''id'' \<mapsto> [uid]],
      cookies = Map.empty\<rparr>"

definition provider_with :: "string \<Rightarrow> int \<Rightarrow> json \<Rightarrow> provider" where
  "provider_with token_body st js =
     \<lparr>token_endpoint = (\<lambda>u. token_body),
      user_endpoint = (\<lambda>h. \<lparr>p_status = st, p_json = Inr js\<rparr>)\<rparr>"

definition profile_of :: "string \<Rightarrow> json" where
  "profile_of name = JObj [(''login'', JStr name), (''id'', JInt 583231)]"

definition empty_store :: store where
  "empty_store = \<lparr>docs = [], oplog = []\<rparr>"

text \<open>The store after \<open>123\<close> was linked to \<open>octocat\<close>, and after it was linked again.\<close>

definition first_link_store :: store where
  "first_link_store =
     \<lparr>docs = [[(''_id'', JInt 123), (''github'', JStr ''octocat'')]],
      oplog = [FindOne 123,
               InsertOne [(''_id'', JInt 123), (''github'', JStr ''octocat'')]]\<rparr>"

definition second_link_store :: store where
  "second_link_store =
     \<lparr>docs = [[(''_id'', JInt 123), (''github'', JStr ''octocat2'')]],
      oplog = [FindOne 123,
               InsertOne [(''_id'', JInt 123), (''github'', JStr ''octocat'')],
               FindOne 123, UpdateOne 123 (JStr ''octocat2'')]\<rparr>"

text \<open>A store whose documents carry fields that this program never writes.\<close>

definition annotated_store :: store where
  "annotated_store =
     \<lparr>docs = [[(''_id'', JInt 7), (''github'', JStr ''hubot'')],
              [(''_id'', JInt 123), (''joined'', JInt 2019), (''github'', JStr ''octocat'')]],
      oplog = []\<rparr>"

definition relinked_store :: store where
  "relinked_store =
     \<lparr>docs = [[(''_id'', JInt 7), (''github'', JStr ''hubot'')],
              [(''_id'', JInt 123), (''joined'', JInt 2019), (''github'', JStr ''octocat2'')]],
      oplog = [FindOne 123, UpdateOne 123 (JStr ''octocat2'')]\<rparr>"

definition done_response :: "string \<Rightarrow> response" where
  "done_response name =
     \<lparr>status = 200,
      body = ''Done! The GitHub account '' @ name @ '' is now linked with Discord.'',
      location = None, resp_cookies = []\<rparr>"

definition superscript_two :: string where
  "superscript_two = [CHR 0xB2]"

subsection \<open>Unfolding the model on the sample data\<close>

lemmas sample_defs =
  sample_runtime_def sample_env_def callback_request_def provider_with_def profile_of_def
  empty_store_def

lemmas parse_qs_defs =
  parse_qs_def parse_qsl_def parse_field_def unquote_def plus_to_space_def

lemmas request_token_defs =
  request_token_def env_get_def subscript0_def CODE_GITHUB_def

lemmas eval_defs =
  github_callback_def link_account_def unconfigured_def isnumeric_def numeric_chars_def
  py_int_def max_str_digits_def to_ascii_def is_space_def is_digit_def digits_value_def
  digit_val_def find_one_def update_one_def insert_one_def truthy_def matches_id_def int64_def
  profile_headers_def response_text_def format0_def

section \<open>The landing redirect\<close>

text \<open>
  C8. A request to the root route is answered with a 302 redirect to
  https://github.com/ChomusukeBot, whatever the environment, the request, the provider
  and the store are; the store is left as it was.
\<close>

theorem root_always_redirects:
  "handle rt env Root req prov s =
     (Inr \<lparr>status = 302, body = [], location = Some ''https://github.com/ChomusukeBot'',
           resp_cookies = []\<rparr>, s)"
  by (simp add: handle_def home_def response_redirect_def)

section \<open>The decoded query string\<close>

text \<open>Every key of the dict that \<open>parse_qs\<close> returns has at least one value.\<close>

lemma collect_nonempty:
  assumes "\<And>k vs. d k = Some vs \<Longrightarrow> vs \<noteq> []" and "collect ps d k = Some vs"
  shows "vs \<noteq> []"
  using assms
proof (induction ps arbitrary: d)
  case Nil
  then show ?case by simp
next
  case (Cons p ps)
  obtain name v where p: "p = (name, v)" by (cases p)
  let ?d = "d(name \<mapsto> (case d name of None \<Rightarrow> [v] | Some ws \<Rightarrow> ws @ [v]))"
  have "\<And>j ws. ?d j = Some ws \<Longrightarrow> ws \<noteq> []"
    using Cons.prems(1) by (auto split: if_splits option.splits)
  moreover have "collect ps ?d k = Some vs" using Cons.prems(2) p by simp
  ultimately show ?case by (rule Cons.IH)
qed

lemma parse_qs_nonempty: "parse_qs dec qs k = Some vs \<Longrightarrow> vs \<noteq> []"
  unfolding parse_qs_def by (rule collect_nonempty [of Map.empty]) simp_all

lemma subscript0_parse_qs:
  "subscript0 (parse_qs dec qs) k = Inl e \<longleftrightarrow> e = KeyError \<and> parse_qs dec qs k = None"
  using parse_qs_nonempty [of dec qs k]
  by (auto simp: subscript0_def split: option.splits list.splits)

section \<open>The checks of the callback\<close>

lemma callback_unconfigured:
  "unconfigured env \<Longrightarrow>
   github_callback rt env req prov s =
     (Inr (response_text ''GitHub is not supported at this time.'' 503), s)"
  by (simp add: github_callback_def)

lemma callback_no_cookie:
  "\<not> unconfigured env \<Longrightarrow> cookies req ''id'' = None \<Longrightarrow>
   github_callback rt env req prov s =
     (Inr (response_text ''No Discord ID present on cookies.'' 400), s)"
  by (simp add: github_callback_def)

lemma callback_not_numeric:
  "\<not> unconfigured env \<Longrightarrow> cookies req ''id'' = Some cid \<Longrightarrow> \<not> isnumeric cid \<Longrightarrow>
   github_callback rt env req prov s =
     (Inr (response_text ''The Discord ID is not numeric.'' 400), s)"
  by (simp add: github_callback_def)

lemma callback_no_code:
  "\<not> unconfigured env \<Longrightarrow> cookies req ''id'' = Some cid \<Longrightarrow> isnumeric cid \<Longrightarrow>
   args req ''code'' = None \<Longrightarrow>
   github_callback rt env req prov s =
     (Inr (response_text ''There is no GitHub code.'' 400), s)"
  by (simp add: github_callback_def)

lemma request_token_code:
  "request_token rt env req prov = Inr params \<Longrightarrow> args req ''code'' \<noteq> None"
  by (auto simp: request_token_def subscript0_def split: sum.splits option.splits)

text \<open>Once the four checks have passed, the handler goes on with the decoded body.\<close>

lemma callback_after_checks:
  assumes "\<not> unconfigured env" "cookies req ''id'' = Some cid" "isnumeric cid"
    and "request_token rt env req prov = Inr params"
  shows "github_callback rt env req prov s =
     (if params ''error'' \<noteq> None
      then (case subscript0 params ''error_description'' of
              Inl e \<Rightarrow> (Inl e, s)
            | Inr msg \<Rightarrow> (Inr (response_text msg 400), s))
      else (case subscript0 params ''access_token'' of
              Inl e \<Rightarrow> (Inl e, s)
            | Inr token \<Rightarrow>
                if p_status (user_endpoint prov (profile_headers token)) \<noteq> 200
                then (Inr (response_text ''An error has ocurred while fetching your data.''
                             (p_status (user_endpoint prov (profile_headers token)))), s)
                else (case p_json (user_endpoint prov (profile_headers token)) of
                        Inl e \<Rightarrow> (Inl e, s)
                      | Inr js \<Rightarrow> link_account rt cid js s)))"
  using assms request_token_code [OF assms(4)]
  by (auto simp: github_callback_def Let_def split: sum.splits)

text \<open>
  C2. The callback checks, in this order: the OAuth client credentials (503), the
  presence of the identifier cookie (400), that the cookie is numeric (400), the presence
  of the \<open>code\<close> parameter (400). Each failure is decided by the checks before it
  alone, whatever the later ones would say, and leaves the store as it was. Without
  credentials, both \<open>/github\<close> and \<open>/github/callback\<close> answer 503 whatever the
  request holds.
\<close>

theorem precondition_order:
  "(unconfigured env \<longrightarrow>
      github_callback rt env req prov s =
        (Inr \<lparr>status = 503, body = ''GitHub is not supported at this time.'',
              location = None, resp_cookies = []\<rparr>, s)
      \<and> github rt env req =
        Inr \<lparr>status = 503, body = ''GitHub is not supported at this time.'',
             location = None, resp_cookies = []\<rparr>)
   \<and> (\<not> unconfigured env \<and> cookies req ''id'' = None \<longrightarrow>
      github_callback rt env req prov s =
        (Inr \<lparr>status = 400, body = ''No Discord ID present on cookies.'',
              location = None, resp_cookies = []\<rparr>, s))
   \<and> (\<not> unconfigured env \<and> cookies req ''id'' = Some cid \<and> \<not> isnumeric cid \<longrightarrow>
      github_callback rt env req prov s =
        (Inr \<lparr>status = 400, body = ''The Discord ID is not numeric.'',
              location = None, resp_cookies = []\<rparr>, s))
   \<and> (\<not> unconfigured env \<and> cookies req ''id'' = Some cid \<and> isnumeric cid
        \<and> args req ''code'' = None \<longrightarrow>
      github_callback rt env req prov s =
        (Inr \<lparr>status = 400, body = ''There is no GitHub code.'',
              location = None, resp_cookies = []\<rparr>, s))"
proof -
  have "unconfigured env \<Longrightarrow> github rt env req =
        Inr \<lparr>status = 503, body = ''GitHub is not supported at this time.'',
             location = None, resp_cookies = []\<rparr>"
    by (simp add: github_def response_text_def)
  then show ?thesis
    using callback_unconfigured [of env rt req prov s] callback_no_cookie [of env req rt prov s]
      callback_not_numeric [of env req cid rt prov s] callback_no_code [of env req cid rt prov s]
    by (simp add: response_text_def)
qed

theorem precondition_order_witness:
  "github_callback sample_runtime no_credentials (callback_request ''123'')
       (provider_with ''access_token=t0'' 200 (profile_of ''octocat'')) empty_store =
     (Inr \<lparr>status = 503, body = ''GitHub is not supported at this time.'',
           location = None, resp_cookies = []\<rparr>, empty_store)
   \<and> github sample_runtime no_credentials (initiate_request ''123'') =
     Inr \<lparr>status = 503, body = ''GitHub is not supported at this time.'',
          location = None, resp_cookies = []\<rparr>
   \<and> github_callback sample_runtime sample_env bare_request
       (provider_with ''access_token=t0'' 200 (profile_of ''octocat'')) empty_store =
     (Inr \<lparr>status = 400, body = ''No Discord ID present on cookies.'',
           location = None, resp_cookies = []\<rparr>, empty_store)
   \<and> github_callback sample_runtime sample_env (callback_request ''abc'')
       (provider_with ''access_token=t0'' 200 (profile_of ''octocat'')) empty_store =
     (Inr \<lparr>status = 400, body = ''The Discord ID is not numeric.'',
           location = None, resp_cookies = []\<rparr>, empty_store)
   \<and> github_callback sample_runtime sample_env ((callback_request ''123'')\<lparr>args := Map.empty\<rparr>)
       (provider_with ''access_token=t0'' 200 (profile_of ''octocat'')) empty_store =
     (Inr \<lparr>status = 400, body = ''There is no GitHub code.'',
           location = None, resp_cookies = []\<rparr>, empty_store)"
  using precondition_order [where env = no_credentials and rt = sample_runtime
      and req = "callback_request ''123''"
      and prov = "provider_with ''access_token=t0'' 200 (profile_of ''octocat'')"
      and s = empty_store]
    precondition_order [where env = no_credentials and rt = sample_runtime
      and req = "initiate_request ''123''"]
    precondition_order [where env = sample_env and rt = sample_runtime
      and req = bare_request
      and prov = "provider_with ''access_token=t0'' 200 (profile_of ''octocat'')"
      and s = empty_store]
    precondition_order [where env = sample_env and rt = sample_runtime
      and req = "callback_request ''abc''" and cid = "''abc''"
      and prov = "provider_with ''access_token=t0'' 200 (profile_of ''octocat'')"
      and s = empty_store]
    precondition_order [where env = sample_env and rt = sample_runtime
      and req = "(callback_request ''123'')\<lparr>args := Map.empty\<rparr>" and cid = "''123''"
      and prov = "provider_with ''access_token=t0'' 200 (profile_of ''octocat'')"
      and s = empty_store]
  by (simp add: unconfigured_def no_credentials_def sample_env_def bare_request_def
      callback_request_def isnumeric_def numeric_chars_def)

section \<open>A rejected token exchange\<close>

text \<open>
  C3, as stated, at the body \<open>error=access_denied\<close>: the decoded body has an \<open>error\<close>
  key, and the handler raises KeyError instead of answering 400.
\<close>

theorem exchange_error_without_description:
  "parse_qs (percent_decode sample_runtime) ''error=access_denied'' ''error''
     = Some [''access_denied'']
   \<and> github_callback sample_runtime sample_env (callback_request ''123'')
       (provider_with ''error=access_denied'' 200 (profile_of ''octocat'')) empty_store
     = (Inl KeyError, empty_store)"
  by (simp add: github_callback_def unconfigured_def isnumeric_def numeric_chars_def
      sample_defs parse_qs_defs request_token_defs)

text \<open>
  C3, amended. When the decoded body of the token-exchange response has an \<open>error\<close> key
  and an \<open>error_description\<close> key, the callback answers 400 with the first
  \<open>error_description\<close> value as its body, and the store is neither read nor written.
\<close>

theorem exchange_rejected:
  assumes "\<not> unconfigured env" and "cookies req ''id'' = Some cid" and "isnumeric cid"
    and "request_token rt env req prov = Inr params"
    and "params ''error'' \<noteq> None"
    and "params ''error_description'' = Some (msg # msgs)"
  shows "github_callback rt env req prov s =
     (Inr \<lparr>status = 400, body = msg, location = None, resp_cookies = []\<rparr>, s)"
  using assms(5,6) callback_after_checks [OF assms(1-4), of s]
  by (simp add: subscript0_def response_text_def)

theorem exchange_rejected_witness:
  "github_callback sample_runtime sample_env (callback_request ''123'')
       (provider_with ''error=access_denied&error_description=User+denied+access'' 200
          (profile_of ''octocat'')) empty_store
     = (Inr \<lparr>status = 400, body = ''User denied access'', location = None,
             resp_cookies = []\<rparr>, empty_store)"
  using exchange_rejected [where env = sample_env and rt = sample_runtime
      and req = "callback_request ''123''" and cid = "''123''"
      and prov = "provider_with ''error=access_denied&error_description=User+denied+access''
                    200 (profile_of ''octocat'')"
      and params = "parse_qs (percent_decode sample_runtime)
                      ''error=access_denied&error_description=User+denied+access''"
      and msg = "''User denied access''" and msgs = "[]" and s = empty_store]
  by (simp add: unconfigured_def isnumeric_def numeric_chars_def
      sample_defs parse_qs_defs request_token_defs)

section \<open>A cookie that is not numeric\<close>

text \<open>
  C4. With the credentials configured (without them the first check answers 503 before
  the cookie is looked at), a callback request whose \<open>id\<close> cookie is present and not
  numeric is answered with 400, and the store is neither read nor written.
\<close>

theorem non_numeric_cookie_rejected:
  assumes "\<not> unconfigured env" and "cookies req ''id'' = Some cid" and "\<not> isnumeric cid"
  shows "github_callback rt env req prov s =
     (Inr \<lparr>status = 400, body = ''The Discord ID is not numeric.'',
           location = None, resp_cookies = []\<rparr>, s)"
  using callback_not_numeric [OF assms] by (simp add: response_text_def)

theorem non_numeric_cookie_rejected_witness:
  "github_callback sample_runtime sample_env (callback_request ''abc'')
       (provider_with ''access_token=t0'' 200 (profile_of ''octocat'')) empty_store
     = (Inr \<lparr>status = 400, body = ''The Discord ID is not numeric.'',
             location = None, resp_cookies = []\<rparr>, empty_store)"
  using non_numeric_cookie_rejected [where req = "callback_request ''abc''"
      and cid = "''abc''" and rt = sample_runtime and env = sample_env
      and prov = "provider_with ''access_token=t0'' 200 (profile_of ''octocat'')"
      and s = empty_store]
  by (simp add: unconfigured_def isnumeric_def numeric_chars_def sample_env_def
      callback_request_def)

section \<open>A failed profile request\<close>

text \<open>
  C5. When the four checks pass and the token exchange succeeds (the decoded body has no
  \<open>error\<close> key and has an access token), and the profile request is answered with a
  status other than 200, the callback answers with that very status, and the store is
  neither read nor written.
\<close>

theorem profile_fetch_failed:
  assumes "\<not> unconfigured env" and "cookies req ''id'' = Some cid" and "isnumeric cid"
    and "request_token rt env req prov = Inr params"
    and "params ''error'' = None"
    and "params ''access_token'' = Some (token # tokens)"
    and "p_status (user_endpoint prov (profile_headers token)) = st"
    and "st \<noteq> 200"
  shows "github_callback rt env req prov s =
     (Inr \<lparr>status = st, body = ''An error has ocurred while fetching your data.'',
           location = None, resp_cookies = []\<rparr>, s)"
  using assms(5-8) callback_after_checks [OF assms(1-4), of s]
  by (simp add: subscript0_def response_text_def)

theorem profile_fetch_failed_witness:
  "github_callback sample_runtime sample_env (callback_request ''123'')
       (provider_with ''access_token=t0&token_type=bearer'' 404 JNull) empty_store
     = (Inr \<lparr>status = 404, body = ''An error has ocurred while fetching your data.'',
             location = None, resp_cookies = []\<rparr>, empty_store)"
  using profile_fetch_failed [where env = sample_env and rt = sample_runtime
      and req = "callback_request ''123''" and cid = "''123''"
      and prov = "provider_with ''access_token=t0&token_type=bearer'' 404 JNull"
      and params = "parse_qs (percent_decode sample_runtime)
                      ''access_token=t0&token_type=bearer''"
      and token = "''t0''" and tokens = "[]" and st = 404 and s = empty_store]
  by (simp add: unconfigured_def isnumeric_def numeric_chars_def
      sample_defs parse_qs_defs request_token_defs)

section \<open>Starting the flow\<close>

text \<open>
  C7. A request to \<open>/github\<close> is answered with 503 when the credentials are not
  configured, otherwise with 400 when there is no \<open>id\<close> parameter, otherwise with a 301
  redirect to \<open>authorize?client_id=<client>&redirect_uri=<callback>\<close> at the provider,
  where the callback is \<open>parse_url(request.url)\<close> followed by \<open>/github/callback\<close>, and
  with the \<open>id\<close> cookie set to the first \<open>id\<close> value of the query (a parameter that
  is present in \<open>request.args\<close> has at least one value).
\<close>

theorem initiate_redirects:
  "(unconfigured env \<longrightarrow>
      github rt env req =
        Inr \<lparr>status = 503, body = ''GitHub is not supported at this time.'',
             location = None, resp_cookies = []\<rparr>)
   \<and> (\<not> unconfigured env \<and> args req ''id'' = None \<longrightarrow>
      github rt env req =
        Inr \<lparr>status = 400, body = ''The Discord ID was not specified'',
             location = None, resp_cookies = []\<rparr>)
   \<and> (env ''GITHUB_CLIENT'' = Some client \<and> env ''GITHUB_SECRET'' = Some secret
        \<and> args req ''id'' = Some (uid # uids) \<longrightarrow>
      github rt env req =
        Inr \<lparr>status = 301, body = [],
             location = Some (''https://github.com/login/oauth/authorize?client_id='' @ client
                                @ ''&redirect_uri='' @ parse_url rt (url req)
                                @ ''/github/callback''),
             resp_cookies = [(''id'', uid)]\<rparr>)"
  by (simp add: github_def unconfigured_def response_text_def response_redirect_def
      env_get_def subscript0_def AUTH_GITHUB_def)

theorem initiate_redirects_witness:
  "github sample_runtime no_credentials (initiate_request ''123'') =
     Inr \<lparr>status = 503, body = ''GitHub is not supported at this time.'',
          location = None, resp_cookies = []\<rparr>
   \<and> github sample_runtime sample_env bare_request =
     Inr \<lparr>status = 400, body = ''The Discord ID was not specified'',
          location = None, resp_cookies = []\<rparr>
   \<and> github sample_runtime sample_env (initiate_request ''123'') =
     Inr \<lparr>status = 301, body = [],
          location = Some (''https://github.com/login/oauth/authorize?client_id=client''
                             @ ''&redirect_uri=http://localhost:42013/github/callback''),
          resp_cookies = [(''id'', ''123'')]\<rparr>"
  using initiate_redirects [where env = no_credentials and rt = sample_runtime
      and req = "initiate_request ''123''"]
    initiate_redirects [where env = sample_env and rt = sample_runtime
      and req = bare_request]
    initiate_redirects [where env = sample_env and rt = sample_runtime
      and req = "initiate_request ''123''" and client = "''client''"
      and secret = "''secret''" and uid = "''123''" and uids = "[]"]
  by (simp add: unconfigured_def sample_defs no_credentials_def bare_request_def
      initiate_request_def)

section \<open>The numeric guard and the conversion\<close>

lemma digit_cases:
  "is_digit c \<longleftrightarrow> c = CHR ''0'' \<or> c = CHR ''1'' \<or> c = CHR ''2'' \<or> c = CHR ''3''
     \<or> c = CHR ''4'' \<or> c = CHR ''5'' \<or> c = CHR ''6'' \<or> c = CHR ''7''
     \<or> c = CHR ''8'' \<or> c = CHR ''9''"
  by (auto simp: is_digit_def)

lemma digit_to_ascii: "is_digit c \<Longrightarrow> to_ascii c = c"
  by (auto simp: digit_cases to_ascii_def)

lemma digit_not_space: "is_digit c \<Longrightarrow> \<not> is_space c"
  by (auto simp: digit_cases is_space_def)

lemma digit_not_mark:
  "is_digit c \<Longrightarrow> c \<noteq> CHR ''+'' \<and> c \<noteq> CHR ''-'' \<and> c \<noteq> CHR ''_''"
  by (auto simp: digit_cases)

lemma digits_no_double_underscore:
  "list_all is_digit s \<Longrightarrow> no_double_underscore s"
proof (induction s rule: no_double_underscore.induct)
  case (1 a b cs)
  then have "is_digit a" and "list_all is_digit (b # cs)" by simp_all
  with 1 digit_not_mark [of a] show ?case by simp
qed simp_all

lemma digit_numeric: "is_digit c \<Longrightarrow> c \<in> set numeric_chars"
  unfolding is_digit_def numeric_chars_def set_append by (rule UnI1)

text \<open>
  A non-empty string of ASCII digits passes the guard, and converts when it has no more
  than 4300 digits.
\<close>

lemma digits_pass_guard:
  "s \<noteq> [] \<Longrightarrow> list_all is_digit s \<Longrightarrow> isnumeric s"
  by (simp add: isnumeric_def list_all_iff digit_numeric)

lemma digits_convert:
  assumes "s \<noteq> []" and "list_all is_digit s"
  shows "py_int s =
     (if length s \<le> max_str_digits then Inr (digits_value s) else Inl ValueError)"
proof -
  have all: "\<forall>c\<in>set s. is_digit c" using assms(2) by (simp add: list_all_iff)
  have m: "map to_ascii s = s"
    using all by (simp add: map_idI digit_to_ascii)
  have h: "is_digit (hd s)" and l: "is_digit (last s)"
    using assms(1) all by simp_all
  have d: "dropWhile is_space s = s"
    using h assms(1) by (cases s) (auto dest: digit_not_space)
  have t: "takeWhile (\<lambda>c. is_digit c \<or> c = CHR ''_'') s = s"
    using all by (simp add: takeWhile_eq_all_conv)
  have r: "dropWhile (\<lambda>c. is_digit c \<or> c = CHR ''_'') s = []"
    using all by simp
  have f: "filter is_digit s = s"
    using all by (simp add: filter_id_conv)
  show ?thesis
    using assms(1) digit_not_mark [OF h] digit_not_mark [OF l]
      digits_no_double_underscore [OF assms(2)]
    by (simp add: py_int_def m d t r f)
qed

text \<open>
  A character that the guard accepts and that is no ASCII digit is turned into a
  question mark, where the conversion stops.
\<close>

lemma to_ascii_high:
  "to_ascii (CHR 0xB2) = CHR ''?''" "to_ascii (CHR 0xB3) = CHR ''?''"
  "to_ascii (CHR 0xB9) = CHR ''?''" "to_ascii (CHR 0xBC) = CHR ''?''"
  "to_ascii (CHR 0xBD) = CHR ''?''" "to_ascii (CHR 0xBE) = CHR ''?''"
  by (simp_all add: to_ascii_def)

lemma non_digit_numeric:
  "c \<in> set numeric_chars \<Longrightarrow> \<not> is_digit c \<Longrightarrow>
   c = CHR 0xB2 \<or> c = CHR 0xB3 \<or> c = CHR 0xB9 \<or> c = CHR 0xBC \<or> c = CHR 0xBD \<or> c = CHR 0xBE"
  by (simp add: numeric_chars_def is_digit_def)

lemma numeric_to_ascii:
  assumes "c \<in> set numeric_chars" and "\<not> is_digit c"
  shows "to_ascii c = CHR ''?''"
  using non_digit_numeric [OF assms] to_ascii_high by blast

text \<open>
  For a cookie that passes the guard, the conversion is defined exactly when the cookie
  consists of ASCII digits, no more than 4300 of them.
\<close>

lemma guard_passed_conversion:
  assumes "isnumeric s"
  shows "(\<exists>n. py_int s = Inr n)
           \<longleftrightarrow> list_all is_digit s \<and> length s \<le> max_str_digits"
proof
  assume "list_all is_digit s \<and> length s \<le> max_str_digits"
  moreover have "s \<noteq> []" using assms by (simp add: isnumeric_def)
  ultimately show "\<exists>n. py_int s = Inr n" by (simp add: digits_convert)
next
  assume conv: "\<exists>n. py_int s = Inr n"
  have ne0: "s \<noteq> []" using assms by (simp add: isnumeric_def)
  have "list_all is_digit s"
  proof (rule ccontr)
    assume "\<not> list_all is_digit s"
    then obtain c where c: "c \<in> set s" "\<not> is_digit c" by (auto simp: list_all_iff)
    define t where "t = map to_ascii s"
    let ?P = "\<lambda>c. is_digit c \<or> c = CHR ''_''"
    have num: "\<forall>x\<in>set s. x \<in> set numeric_chars"
      using assms by (simp add: isnumeric_def list_all_iff)
    have tchars: "is_digit x \<or> x = CHR ''?''" if "x \<in> set t" for x
    proof -
      from that obtain y where y: "y \<in> set s" "x = to_ascii y" by (auto simp: t_def)
      then have "y \<in> set numeric_chars" using num by simp
      then show ?thesis
        using y digit_to_ascii [of y] numeric_to_ascii [of y] by (cases "is_digit y") simp_all
    qed
    have "to_ascii c = CHR ''?''" using c num by (simp add: numeric_to_ascii)
    then have q: "CHR ''?'' \<in> set t" using c(1) by (force simp: t_def)
    have ne: "t \<noteq> []" using q by auto
    have qs: "\<not> is_space (CHR ''?'')" by (simp add: is_space_def)
    have qp: "\<not> ?P (CHR ''?'')" by (simp add: is_digit_def)
    have "\<not> is_space (hd t)"
      using tchars [OF hd_in_set [OF ne]] qs digit_not_space by auto
    then have d: "dropWhile is_space t = t" using ne by (cases t) auto
    have nosign: "hd t \<noteq> CHR ''+'' \<and> hd t \<noteq> CHR ''-''"
      using tchars [OF hd_in_set [OF ne]] digit_not_mark [of "hd t"] by auto
    from q qp have rest: "dropWhile ?P t \<noteq> []"
      by (auto simp: dropWhile_eq_Nil_conv)
    then have "\<not> ?P (hd (dropWhile ?P t))" by (rule hd_dropWhile)
    moreover have "hd (dropWhile ?P t) \<in> set t"
      using hd_in_set [OF rest] by (rule set_dropWhileD)
    ultimately have "hd (dropWhile ?P t) = CHR ''?''" using tchars by blast
    with qs have "\<not> is_space (hd (dropWhile ?P t))" by simp
    with rest have "\<not> list_all is_space (dropWhile ?P t)"
      by (cases "dropWhile ?P t") auto
    with d nosign ne have "py_int s = Inl ValueError"
      by (simp add: py_int_def t_def [symmetric])
    with conv show False by simp
  qed
  moreover from this conv have "length s \<le> max_str_digits"
    using digits_convert [OF ne0] by (auto split: if_splits)
  ultimately show "list_all is_digit s \<and> length s \<le> max_str_digits" ..
qed

text \<open>
  C6 at the cookie value U+00B2 (superscript two): \<open>isnumeric\<close> accepts it, \<open>int\<close>
  raises ValueError on it, and the callback, with every other check passed and the
  provider answering well, ends in that exception instead of the 400 answer.
\<close>

theorem superscript_cookie_passes_guard:
  "isnumeric superscript_two
   \<and> py_int superscript_two = Inl ValueError
   \<and> github_callback sample_runtime sample_env (callback_request superscript_two)
       (provider_with ''access_token=t0&token_type=bearer'' 200 (profile_of ''octocat''))
       empty_store
     = (Inl ValueError, empty_store)"
  by (simp add: github_callback_def link_account_def unconfigured_def isnumeric_def
      numeric_chars_def py_int_def to_ascii_def is_space_def is_digit_def
      sample_defs superscript_two_def parse_qs_defs request_token_defs)

section \<open>Provider answers outside the error taxonomy\<close>

text \<open>
  C10. With the four checks passed, three answers of the provider end the callback in
  an uncaught KeyError instead of a response: a token body with neither an \<open>error\<close> nor
  an \<open>access_token\<close> key; a token body with an \<open>error\<close> key and no \<open>error_description\<close>
  key; and a 200 profile answer whose JSON object has no \<open>login\<close> key (here the store
  has been read, and is not written).
\<close>

theorem unhandled_provider_answers:
  assumes "\<not> unconfigured env" and "cookies req ''id'' = Some cid" and "isnumeric cid"
    and "request_token rt env req prov = Inr params"
  shows "(params ''error'' = None \<and> params ''access_token'' = None \<longrightarrow>
            github_callback rt env req prov s = (Inl KeyError, s))
       \<and> (params ''error'' \<noteq> None \<and> params ''error_description'' = None \<longrightarrow>
            github_callback rt env req prov s = (Inl KeyError, s))
       \<and> (params ''error'' = None \<and> params ''access_token'' = Some (token # tokens)
            \<and> user_endpoint prov (profile_headers token)
                = \<lparr>p_status = 200, p_json = Inr (JObj kvs)\<rparr>
            \<and> map_of kvs ''login'' = None \<and> py_int cid = Inr n \<and> int64 n \<longrightarrow>
            github_callback rt env req prov s
              = (Inl KeyError, s\<lparr>oplog := oplog s @ [FindOne n]\<rparr>))"
  using callback_after_checks [OF assms, of s]
  by (auto simp: subscript0_def link_account_def find_one_def)

theorem unhandled_provider_answers_witness:
  "github_callback sample_runtime sample_env (callback_request ''123'')
       (provider_with ''token_type=bearer'' 200 (profile_of ''octocat'')) empty_store
     = (Inl KeyError, empty_store)
   \<and> github_callback sample_runtime sample_env (callback_request ''123'')
       (provider_with ''error=access_denied'' 200 (profile_of ''octocat'')) empty_store
     = (Inl KeyError, empty_store)
   \<and> github_callback sample_runtime sample_env (callback_request ''123'')
       (provider_with ''access_token=t0'' 200 (JObj [(''id'', JInt 583231)])) empty_store
     = (Inl KeyError, \<lparr>docs = [], oplog = [FindOne 123]\<rparr>)"
  using unhandled_provider_answers [where env = sample_env and rt = sample_runtime
      and req = "callback_request ''123''" and cid = "''123''"
      and prov = "provider_with ''token_type=bearer'' 200 (profile_of ''octocat'')"
      and params = "parse_qs (percent_decode sample_runtime) ''token_type=bearer''"
      and s = empty_store]
    unhandled_provider_answers [where env = sample_env and rt = sample_runtime
      and req = "callback_request ''123''" and cid = "''123''"
      and prov = "provider_with ''error=access_denied'' 200 (profile_of ''octocat'')"
      and params = "parse_qs (percent_decode sample_runtime) ''error=access_denied''"
      and s = empty_store]
    unhandled_provider_answers [where env = sample_env and rt = sample_runtime
      and req = "callback_request ''123''" and cid = "''123''"
      and prov = "provider_with ''access_token=t0'' 200 (JObj [(''id'', JInt 583231)])"
      and params = "parse_qs (percent_decode sample_runtime) ''access_token=t0''"
      and token = "''t0''" and tokens = "[]" and kvs = "[(''id'', JInt 583231)]"
      and n = 123 and s = empty_store]
  by (simp add: unconfigured_def isnumeric_def numeric_chars_def py_int_def
      max_str_digits_def to_ascii_def is_space_def is_digit_def digits_value_def
      digit_val_def int64_def
      sample_defs parse_qs_defs request_token_defs)

section \<open>The upsert\<close>

subsection \<open>The store operations\<close>

lemma find_update_first:
  "find P ds = Some d \<Longrightarrow>
   \<exists>pre post. ds = pre @ d # post \<and> update_first P f ds = pre @ f d # post"
proof (induction ds)
  case Nil
  then show ?case by simp
next
  case (Cons a ds)
  show ?case
  proof (cases "P a")
    case True
    with Cons.prems have "a = d" by simp
    with True have "a # ds = [] @ d # ds \<and> update_first P f (a # ds) = [] @ f d # ds"
      by simp
    then show ?thesis by blast
  next
    case False
    with Cons.prems have "find P ds = Some d" by simp
    from Cons.IH [OF this] obtain pre post
      where "ds = pre @ d # post" and "update_first P f ds = pre @ f d # post" by blast
    with False have "a # ds = (a # pre) @ d # post
        \<and> update_first P f (a # ds) = (a # pre) @ f d # post"
      by simp
    then show ?thesis by blast
  qed
qed

lemma find_satisfies: "find P ds = Some d \<Longrightarrow> P d"
  by (induction ds) (auto split: if_splits)

lemma list_ex_find: "list_ex P ds = (find P ds \<noteq> None)"
  by (induction ds) auto

lemma truthy_find: "truthy (find (matches_id n) ds) = (find (matches_id n) ds \<noteq> None)"
proof (cases "find (matches_id n) ds")
  case None
  then show ?thesis by (simp add: truthy_def)
next
  case (Some d)
  then have "matches_id n d" by (rule find_satisfies)
  then have "d \<noteq> []" by (auto simp: matches_id_def)
  with Some show ?thesis by (simp add: truthy_def)
qed

lemma map_of_set_github:
  "map_of (AList.update ''github'' v d) = (map_of d)(''github'' \<mapsto> v)"
  by (rule update_conv')

lemma matches_id_set_github:
  "matches_id m (AList.update ''github'' v d) = matches_id m d"
  by (simp add: matches_id_def map_of_set_github)

lemma records_for_update_first:
  "length (records_for m (update_first (matches_id n) (AList.update ''github'' v) ds))
     = length (records_for m ds)"
  by (induction ds) (simp_all add: records_for_def matches_id_set_github)

lemma records_for_absent:
  "find (matches_id n) ds = None \<Longrightarrow> records_for n ds = []"
  by (induction ds) (auto simp: records_for_def split: if_splits)

lemma records_for_insert:
  "find (matches_id n) ds = None \<Longrightarrow>
   length (records_for m (ds @ [[(''_id'', JInt n), (''github'', v)]]))
     = (if m = n then 1 else length (records_for m ds))"
  using records_for_absent [of n ds]
  by (auto simp: records_for_def matches_id_def)

subsection \<open>What a call leaves in the store\<close>

lemma link_account_docs:
  assumes "link_account rt cid js s = (res, s')"
  shows "docs s' = docs s
    \<or> (\<exists>n v. docs s' = update_first (matches_id n) (AList.update ''github'' v) (docs s))
    \<or> (\<exists>n v. find (matches_id n) (docs s) = None
          \<and> docs s' = docs s @ [[(''_id'', JInt n), (''github'', v)]])"
proof -
  have "s' = snd (link_account rt cid js s)" using assms by simp
  then have "docs s' = docs s
    \<or> (\<exists>n v. getitem js ''login'' = Inr v \<and> py_int cid = Inr n
          \<and> find (matches_id n) (docs s) \<noteq> None
          \<and> docs s' = update_first (matches_id n) (AList.update ''github'' v) (docs s))
    \<or> (\<exists>n v. getitem js ''login'' = Inr v \<and> py_int cid = Inr n
          \<and> find (matches_id n) (docs s) = None
          \<and> docs s' = docs s @ [[(''_id'', JInt n), (''github'', v)]])"
    by (simp add: link_account_def find_one_def update_one_def insert_one_def
        truthy_find list_ex_find split: sum.splits)
  then show ?thesis by blast
qed

lemma callback_store_cases:
  "github_callback rt env req prov s = (fst (github_callback rt env req prov s), s)
   \<or> (\<exists>cid js. github_callback rt env req prov s = link_account rt cid js s)"
  by (auto simp: github_callback_def Let_def split: option.splits sum.splits)

lemma handle_docs:
  assumes "handle rt env r req prov s = (res, s')"
  shows "docs s' = docs s
    \<or> (\<exists>n v. docs s' = update_first (matches_id n) (AList.update ''github'' v) (docs s))
    \<or> (\<exists>n v. find (matches_id n) (docs s) = None
          \<and> docs s' = docs s @ [[(''_id'', JInt n), (''github'', v)]])"
proof (cases r)
  case Root
  with assms show ?thesis by (simp add: handle_def)
next
  case Github
  with assms show ?thesis by (simp add: handle_def)
next
  case GithubCallback
  with assms have gc: "github_callback rt env req prov s = (res, s')"
    by (simp add: handle_def)
  from callback_store_cases [of rt env req prov s] show ?thesis
  proof
    assume "github_callback rt env req prov s = (fst (github_callback rt env req prov s), s)"
    with gc have "s' = s" by simp
    then show ?thesis by simp
  next
    assume "\<exists>cid js. github_callback rt env req prov s = link_account rt cid js s"
    then obtain cid js where "link_account rt cid js s = (res, s')" using gc by auto
    then show ?thesis by (rule link_account_docs)
  qed
qed

lemma handle_keeps_unique:
  assumes "\<And>m. length (records_for m (docs s)) \<le> 1"
  shows "length (records_for m (docs (snd (handle rt env r req prov s)))) \<le> 1"
proof -
  obtain res s' where h: "handle rt env r req prov s = (res, s')"
    by (cases "handle rt env r req prov s")
  from handle_docs [OF h] have "length (records_for m (docs s')) \<le> 1"
    using assms by (auto simp: records_for_update_first records_for_insert)
  with h show ?thesis by simp
qed

lemma serve_keeps_unique:
  "(\<And>m. length (records_for m (docs s)) \<le> 1) \<Longrightarrow>
   length (records_for m (docs (serve rt env calls s))) \<le> 1"
proof (induction calls arbitrary: s m)
  case Nil
  then show ?case by simp
next
  case (Cons c calls)
  obtain r req prov where c: "c = (r, req, prov)" by (cases c)
  have "\<And>k. length (records_for k (docs (snd (handle rt env r req prov s)))) \<le> 1"
    using Cons.prems by (rule handle_keeps_unique)
  then have "length (records_for m (docs (serve rt env calls (snd (handle rt env r req prov s))))) \<le> 1"
    by (rule Cons.IH)
  with c show ?case by simp
qed

subsection \<open>A successful call\<close>

lemma link_account_success:
  assumes "link_account rt cid js s = (Inr resp, s')"
    and "py_int cid = Inr n" and "getitem js ''login'' = Inr login"
  shows "docs s' =
     (if find (matches_id n) (docs s) = None
      then docs s @ [[(''_id'', JInt n), (''github'', login)]]
      else update_first (matches_id n) (AList.update ''github'' login) (docs s))"
  using assms
  by (auto simp: link_account_def find_one_def update_one_def insert_one_def
      truthy_find list_ex_find split: sum.splits if_splits)

lemma callback_success:
  assumes "github_callback rt env req prov s = (Inr resp, s')" and "status resp = 200"
    and "cookies req ''id'' = Some cid"
    and "request_token rt env req prov = Inr params"
    and "params ''access_token'' = Some (token # tokens)"
    and "p_json (user_endpoint prov (profile_headers token)) = Inr js"
  shows "link_account rt cid js s = (Inr resp, s')"
proof -
  have cfg: "\<not> unconfigured env" and num: "isnumeric cid"
    using assms(1-3) by (auto simp: github_callback_def response_text_def split: if_splits)
  from callback_after_checks [OF cfg assms(3) num assms(4), of s] assms(1,2,5,6)
  show ?thesis
    by (auto simp: subscript0_def response_text_def split: if_splits option.splits list.splits)
qed

lemma link_account_body:
  assumes "link_account rt cid js s = (Inr resp, s')"
    and "getitem js ''login'' = Inr login"
  shows "resp = response_text (''Done! The GitHub account '' @ format0 rt login
                                 @ '' is now linked with Discord.'') 200"
  using assms
  by (auto simp: link_account_def find_one_def split: sum.splits if_splits prod.splits)

lemma callback_success_link:
  assumes "github_callback rt env req prov s = (Inr resp, s')" and "status resp = 200"
    and "cookies req ''id'' = Some cid"
  shows "\<exists>js. link_account rt cid js s = (Inr resp, s')"
  using assms
  by (auto simp: github_callback_def Let_def response_text_def
      split: if_splits sum.splits)

lemma link_account_login:
  assumes "link_account rt cid js s = (Inr resp, s')"
  shows "\<exists>login. getitem js ''login'' = Inr login"
  using assms
  by (auto simp: link_account_def find_one_def split: sum.splits if_splits prod.splits)

text \<open>
  C1. A successful callback (status 200) for the platform user ID \<open>n\<close> read from the
  cookie, with the login \<open>login\<close> read from the fetched profile:
  if the store holds a record for \<open>n\<close>, that record has its \<open>github\<close> field set to
  \<open>login\<close>, keeps its \<open>_id\<close>, and no document is added or removed;
  if it holds none, the one document \<open>{_id: n, github: login}\<close> is appended.
  The answer echoes the login. If the store had at most one record per ID before the
  call, it has at most one per ID after it and after any further run of requests.
\<close>

theorem callback_upserts_link_record:
  assumes "github_callback rt env req prov s = (Inr resp, s')" and "status resp = 200"
    and "cookies req ''id'' = Some cid" and "py_int cid = Inr n"
    and "request_token rt env req prov = Inr params"
    and "params ''access_token'' = Some (token # tokens)"
    and "p_json (user_endpoint prov (profile_headers token)) = Inr js"
    and "getitem js ''login'' = Inr login"
  shows "(\<forall>d. find (matches_id n) (docs s) = Some d \<longrightarrow>
            (\<exists>pre post d'. docs s = pre @ d # post \<and> docs s' = pre @ d' # post
               \<and> map_of d' ''_id'' = Some (JInt n) \<and> map_of d' ''github'' = Some login))
       \<and> (find (matches_id n) (docs s) = None \<longrightarrow>
            docs s' = docs s @ [[(''_id'', JInt n), (''github'', login)]])
       \<and> body resp = ''Done! The GitHub account '' @ format0 rt login
                        @ '' is now linked with Discord.''
       \<and> ((\<forall>m. length (records_for m (docs s)) \<le> 1) \<longrightarrow>
            (\<forall>m. length (records_for m (docs (serve rt env calls s'))) \<le> 1))"
proof -
  have la: "link_account rt cid js s = (Inr resp, s')"
    using assms(1-3,5-7) by (rule callback_success)
  have shape: "docs s' =
     (if find (matches_id n) (docs s) = None
      then docs s @ [[(''_id'', JInt n), (''github'', login)]]
      else update_first (matches_id n) (AList.update ''github'' login) (docs s))"
    using la assms(4,8) by (rule link_account_success)
  have existing: "\<exists>pre post d'. docs s = pre @ d # post \<and> docs s' = pre @ d' # post
      \<and> map_of d' ''_id'' = Some (JInt n) \<and> map_of d' ''github'' = Some login"
    if f: "find (matches_id n) (docs s) = Some d" for d
  proof -
    from find_update_first [OF f, of "AList.update ''github'' login"] obtain pre post
      where "docs s = pre @ d # post"
        and "update_first (matches_id n) (AList.update ''github'' login) (docs s)
               = pre @ AList.update ''github'' login d # post"
      by blast
    moreover have "matches_id n d" using f by (rule find_satisfies)
    ultimately have "docs s = pre @ d # post
        \<and> docs s' = pre @ AList.update ''github'' login d # post
        \<and> map_of (AList.update ''github'' login d) ''_id'' = Some (JInt n)
        \<and> map_of (AList.update ''github'' login d) ''github'' = Some login"
      using shape f by (simp add: map_of_set_github matches_id_def)
    then show ?thesis by blast
  qed
  have fresh: "docs s' = docs s @ [[(''_id'', JInt n), (''github'', login)]]"
    if "find (matches_id n) (docs s) = None"
    using shape that by simp
  have echo: "body resp = ''Done! The GitHub account '' @ format0 rt login
                            @ '' is now linked with Discord.''"
    using link_account_body [OF la assms(8)] by (simp add: response_text_def)
  have inv: "length (records_for m (docs (serve rt env calls s'))) \<le> 1"
    if u: "\<forall>m. length (records_for m (docs s)) \<le> 1" for m
  proof -
    have "s' = snd (handle rt env GithubCallback req prov s)"
      using assms(1) by (simp add: handle_def)
    then have "\<And>k. length (records_for k (docs s')) \<le> 1"
      using u handle_keeps_unique [of s _ rt env GithubCallback req prov] by simp
    then show ?thesis by (rule serve_keeps_unique)
  qed
  from existing fresh echo inv show ?thesis by blast
qed

theorem callback_upserts_link_record_witness:
  "github_callback sample_runtime sample_env (callback_request ''123'')
       (provider_with ''access_token=t0&token_type=bearer'' 200 (profile_of ''octocat''))
       empty_store
     = (Inr (done_response ''octocat''), first_link_store)
   \<and> docs first_link_store
     = docs empty_store @ [[(''_id'', JInt 123), (''github'', JStr ''octocat'')]]
   \<and> github_callback sample_runtime sample_env (callback_request ''123'')
       (provider_with ''access_token=t1&token_type=bearer'' 200 (profile_of ''octocat2''))
       first_link_store
     = (Inr (done_response ''octocat2''), second_link_store)
   \<and> (\<exists>pre post d'.
        docs first_link_store
          = pre @ [(''_id'', JInt 123), (''github'', JStr ''octocat'')] # post
        \<and> docs second_link_store = pre @ d' # post
        \<and> map_of d' ''_id'' = Some (JInt 123)
        \<and> map_of d' ''github'' = Some (JStr ''octocat2''))
   \<and> (\<forall>m. length (records_for m (docs (serve sample_runtime sample_env
          [(GithubCallback, callback_request ''123'',
            provider_with ''access_token=t1&token_type=bearer'' 200 (profile_of ''octocat2''))]
          first_link_store))) \<le> 1)"
proof -
  let ?p1 = "provider_with ''access_token=t0&token_type=bearer'' 200 (profile_of ''octocat'')"
  let ?p2 = "provider_with ''access_token=t1&token_type=bearer'' 200 (profile_of ''octocat2'')"
  have run1: "github_callback sample_runtime sample_env (callback_request ''123'') ?p1
      empty_store = (Inr (done_response ''octocat''), first_link_store)"
    by (simp add: eval_defs sample_defs first_link_store_def done_response_def
        parse_qs_defs request_token_defs)
  have run2: "github_callback sample_runtime sample_env (callback_request ''123'') ?p2
      first_link_store = (Inr (done_response ''octocat2''), second_link_store)"
    by (simp add: eval_defs sample_defs first_link_store_def second_link_store_def
        done_response_def parse_qs_defs request_token_defs)
  have ok: "status (done_response name) = 200" for name
    by (simp add: done_response_def)
  have ck: "cookies (callback_request ''123'') ''id'' = Some ''123''"
    by (simp add: callback_request_def)
  have num: "py_int ''123'' = Inr 123"
    by (simp add: eval_defs)
  have tok1: "request_token sample_runtime sample_env (callback_request ''123'') ?p1
      = Inr (parse_qs (percent_decode sample_runtime) ''access_token=t0&token_type=bearer'')"
    by (simp add: sample_defs request_token_defs)
  have tok2: "request_token sample_runtime sample_env (callback_request ''123'') ?p2
      = Inr (parse_qs (percent_decode sample_runtime) ''access_token=t1&token_type=bearer'')"
    by (simp add: sample_defs request_token_defs)
  have at1: "parse_qs (percent_decode sample_runtime) ''access_token=t0&token_type=bearer''
      ''access_token'' = Some [''t0'']"
    by (simp add: sample_defs parse_qs_defs)
  have at2: "parse_qs (percent_decode sample_runtime) ''access_token=t1&token_type=bearer''
      ''access_token'' = Some [''t1'']"
    by (simp add: sample_defs parse_qs_defs)
  have js1: "p_json (user_endpoint ?p1 (profile_headers ''t0'')) = Inr (profile_of ''octocat'')"
    by (simp add: provider_with_def)
  have js2: "p_json (user_endpoint ?p2 (profile_headers ''t1'')) = Inr (profile_of ''octocat2'')"
    by (simp add: provider_with_def)
  have lg: "getitem (profile_of name) ''login'' = Inr (JStr name)" for name
    by (simp add: profile_of_def)
  note first = callback_upserts_link_record [OF run1 ok ck num tok1 at1 js1 lg,
      where calls = "[(GithubCallback, callback_request ''123'', ?p2)]"]
  note second = callback_upserts_link_record [OF run2 ok ck num tok2 at2 js2 lg]
  have none: "find (matches_id 123) (docs empty_store) = None"
    by (simp add: empty_store_def)
  have some: "find (matches_id 123) (docs first_link_store)
      = Some [(''_id'', JInt 123), (''github'', JStr ''octocat'')]"
    by (simp add: first_link_store_def matches_id_def)
  have unique: "\<forall>m. length (records_for m (docs empty_store)) \<le> 1"
    by (simp add: empty_store_def records_for_def)
  from first none have c2: "docs first_link_store
      = docs empty_store @ [[(''_id'', JInt 123), (''github'', JStr ''octocat'')]]"
    by blast
  from second some have c4: "\<exists>pre post d'.
        docs first_link_store
          = pre @ [(''_id'', JInt 123), (''github'', JStr ''octocat'')] # post
        \<and> docs second_link_store = pre @ d' # post
        \<and> map_of d' ''_id'' = Some (JInt 123)
        \<and> map_of d' ''github'' = Some (JStr ''octocat2'')"
    by blast
  from first unique have c5: "\<forall>m. length (records_for m (docs (serve sample_runtime sample_env
          [(GithubCallback, callback_request ''123'', ?p2)] first_link_store))) \<le> 1"
    by blast
  from run1 c2 run2 c4 c5 show ?thesis by blast
qed

section \<open>What a re-link leaves alone\<close>

text \<open>
  C9. When a successful callback finds a record \<open>d\<close> for the platform user ID, the
  documents before and after it in the collection stay as they were, and the record that
  takes its place agrees with \<open>d\<close> on every field other than \<open>github\<close>.
\<close>

theorem relink_keeps_other_fields:
  assumes "github_callback rt env req prov s = (Inr resp, s')" and "status resp = 200"
    and "cookies req ''id'' = Some cid" and "py_int cid = Inr n"
    and "find (matches_id n) (docs s) = Some d"
  shows "\<exists>pre post d'. docs s = pre @ d # post \<and> docs s' = pre @ d' # post
           \<and> (\<forall>k. k \<noteq> ''github'' \<longrightarrow> map_of d' k = map_of d k)"
proof -
  from callback_success_link [OF assms(1-3)] obtain js
    where la: "link_account rt cid js s = (Inr resp, s')" by blast
  from link_account_login [OF la] obtain login
    where "getitem js ''login'' = Inr login" by blast
  with la assms(4,5)
  have upd: "docs s' = update_first (matches_id n) (AList.update ''github'' login) (docs s)"
    by (simp add: link_account_success)
  from find_update_first [OF assms(5), of "AList.update ''github'' login"] obtain pre post
    where "docs s = pre @ d # post"
      and "update_first (matches_id n) (AList.update ''github'' login) (docs s)
             = pre @ AList.update ''github'' login d # post"
    by blast
  with upd have "docs s = pre @ d # post
      \<and> docs s' = pre @ AList.update ''github'' login d # post
      \<and> (\<forall>k. k \<noteq> ''github'' \<longrightarrow> map_of (AList.update ''github'' login d) k = map_of d k)"
    by (simp add: map_of_set_github)
  then show ?thesis by blast
qed

theorem relink_keeps_other_fields_witness:
  "github_callback sample_runtime sample_env (callback_request ''123'')
       (provider_with ''access_token=t1&token_type=bearer'' 200 (profile_of ''octocat2''))
       annotated_store
     = (Inr (done_response ''octocat2''), relinked_store)
   \<and> (\<exists>pre post d'.
        docs annotated_store
          = pre @ [(''_id'', JInt 123), (''joined'', JInt 2019), (''github'', JStr ''octocat'')]
              # post
        \<and> docs relinked_store = pre @ d' # post
        \<and> (\<forall>k. k \<noteq> ''github'' \<longrightarrow>
              map_of d' k
                = map_of [(''_id'', JInt 123), (''joined'', JInt 2019),
                          (''github'', JStr ''octocat'')] k))"
proof -
  let ?p = "provider_with ''access_token=t1&token_type=bearer'' 200 (profile_of ''octocat2'')"
  have run: "github_callback sample_runtime sample_env (callback_request ''123'') ?p
      annotated_store = (Inr (done_response ''octocat2''), relinked_store)"
    by (simp add: eval_defs sample_defs annotated_store_def relinked_store_def
        done_response_def parse_qs_defs request_token_defs)
  have ok: "status (done_response ''octocat2'') = 200"
    by (simp add: done_response_def)
  have ck: "cookies (callback_request ''123'') ''id'' = Some ''123''"
    by (simp add: callback_request_def)
  have num: "py_int ''123'' = Inr 123"
    by (simp add: eval_defs)
  have some: "find (matches_id 123) (docs annotated_store)
      = Some [(''_id'', JInt 123), (''joined'', JInt 2019), (''github'', JStr ''octocat'')]"
    by (simp add: annotated_store_def matches_id_def)
  from run relink_keeps_other_fields [OF run ok ck num some] show ?thesis by blast
qed

end
